theory Spec2Isabelle
  imports Complex_Main "HOL-Library.Word" "HOL-Library.Multiset"
begin

unbundle bit_operations_syntax

section \<open>Conventions of the embedding\<close>

text \<open>
  The two scripts modelled here are \<^verbatim>\<open>scripts/03_layer3_community_notes.py\<close> (the
  streaming aggregator and its pre/post summary) and \<^verbatim>\<open>scripts/06_robustness_checks.py\<close>
  (the placebo comparator and the robustness report).

  \<^item> A pandas or numpy float is a rational number; a value that may be NaN is a
    \<open>rat option\<close> with \<open>None\<close> for NaN. Rounding of floating-point division is not
    modelled; no statement below depends on it.
  \<^item> A timestamp is an integer number of milliseconds since 1970-01-01T00:00:00Z, except
    the parsed note timestamp, which is the int64 nanosecond count pandas stores.
  \<^item> Library routines whose results are not computed by the scripts themselves
    (\<^verbatim>\<open>pd.to_datetime\<close>, \<^verbatim>\<open>to_period("M")\<close>, \<^verbatim>\<open>scipy.stats.mannwhitneyu\<close>, the robust OLS
    fit of statsmodels) are parameters of the model, collected in the records \<open>pandas\<close>
    and \<open>stats\<close>. Every theorem holds for all values of these parameters.
  \<^item> A Python \<^verbatim>\<open>dict\<close> whose iteration order reaches an output is an association list
    in insertion order; a \<^verbatim>\<open>defaultdict(set)\<close> that is only read by key is a total
    function into sets.
\<close>

datatype error = ValueError | TypeError | KeyError | IndexError

section \<open>Layer 3: the streaming aggregator\<close>

subsection \<open>Snowflake decoding\<close>

text \<open>
  \<^verbatim>\<open>TWITTER_EPOCH_MS = 1288834974657\<close>
\<close>

definition TWITTER_EPOCH_MS :: int where
  "TWITTER_EPOCH_MS = 1288834974657"

text \<open>
  \<^verbatim>\<open>ids = tweet_id_arr.astype("uint64", copy=False)\<close>
  \<^verbatim>\<open>return (ids >> np.uint64(22)).astype("int64") + TWITTER_EPOCH_MS\<close>
  One element of the array is a 64-bit word. The two casts reinterpret the same 64 bits,
  the shift is the logical one of uint64, the addition is the wrapping one of int64, and
  the int64 result is read with \<open>sint\<close>.
\<close>

definition tweet_id_to_timestamp_ms :: "64 word \<Rightarrow> 64 word" where
  "tweet_id_to_timestamp_ms tweet_id = drop_bit 22 tweet_id + word_of_int TWITTER_EPOCH_MS"

subsection \<open>Rows of the event source\<close>

text \<open>
  The reader is called with \<^verbatim>\<open>usecols\<close> and \<^verbatim>\<open>dtype\<close> fixed: four columns of dtype
  \<^verbatim>\<open>"string"\<close> and \<^verbatim>\<open>tweetId\<close> of dtype \<^verbatim>\<open>"int64"\<close>. A cell of the file may be empty
  in any column; what the reader does with an empty \<^verbatim>\<open>tweetId\<close> is part of
  \<open>compute_monthly_metrics\<close> below.
\<close>

record raw_row =
  noteAuthorParticipantId :: "string option"
  tweetId :: "64 word option"
  date :: "string option"
  Timestamp :: "string option"
  language :: "string option"

text \<open>
  The pandas routines the aggregator calls:
  \<^item> \<open>to_datetime strs i\<close> is entry \<open>i\<close> of
    \<^verbatim>\<open>pd.to_datetime(strs, utc=True, errors="coerce")\<close>: the int64 nanoseconds of the
    instant, or \<open>None\<close> (NaT) when the entry does not parse. The routine receives the
    whole column of a chunk, and the result for one entry may depend on the other entries
    (pandas takes the format from the first entry of the column);
  \<^item> \<open>to_period_M\<close> is \<^verbatim>\<open>.to_period("M").astype(str)\<close>: the month label of an instant given
    in milliseconds. Labels are compared as Python compares the strings (\<^verbatim>\<open>sorted\<close>);
  \<^item> \<open>month_start\<close> is \<^verbatim>\<open>pd.to_datetime(Month + "-01", utc=True)\<close>, in milliseconds.
\<close>

record 'm pandas =
  to_datetime :: "string list \<Rightarrow> nat \<Rightarrow> 64 word option"
  to_period_M :: "int \<Rightarrow> 'm"
  month_start :: "'m \<Rightarrow> int"

text \<open>
  A row that survives \<^verbatim>\<open>dropna\<close>: its author is present and its timestamp parsed.
\<close>

record note_row =
  author :: string
  tweet :: "64 word"
  note_ts :: "64 word"
  lang_raw :: "string option"

text \<open>
  \<^verbatim>\<open>chunk["date"].astype(str) + " " + chunk["Timestamp"].astype(str)\<close>: a missing value of
  a \<^verbatim>\<open>"string"\<close> column prints as \<^verbatim>\<open><NA>\<close>.
\<close>

definition astype_str :: "string option \<Rightarrow> string" where
  "astype_str v = (case v of None \<Rightarrow> ''<NA>'' | Some s \<Rightarrow> s)"

definition ts_string :: "raw_row \<Rightarrow> string" where
  "ts_string r = astype_str (date r) @ '' '' @ astype_str (Timestamp r)"

text \<open>
  \<^verbatim>\<open>note_ts = pd.to_datetime(chunk["date"].astype(str) + " " + chunk["Timestamp"].astype(str),\<close>
  \<^verbatim>\<open>                         utc=True, errors="coerce")\<close>: one call for the whole chunk, one
  result per row.
\<close>

definition assign_note_ts :: "'m pandas \<Rightarrow> raw_row list \<Rightarrow> 64 word option list" where
  "assign_note_ts P chunk = map (to_datetime P (map ts_string chunk)) [0..<length chunk]"

text \<open>
  \<^verbatim>\<open>chunk = chunk.dropna(subset=["note_ts", "noteAuthorParticipantId", "tweetId"])\<close>.
  \<open>keep\<close> is the fate of one row with its assigned timestamp: \<open>None\<close> when it is
  dropped.
\<close>

definition keep :: "raw_row \<Rightarrow> 64 word option \<Rightarrow> note_row option" where
  "keep r ts =
     (case ts of
        None \<Rightarrow> None
      | Some t \<Rightarrow>
          (case noteAuthorParticipantId r of
             None \<Rightarrow> None
           | Some a \<Rightarrow>
               (case tweetId r of
                  None \<Rightarrow> None
                | Some tid \<Rightarrow> Some \<lparr>author = a, tweet = tid, note_ts = t, lang_raw = language r\<rparr>)))"

definition dropna :: "'m pandas \<Rightarrow> raw_row list \<Rightarrow> note_row list" where
  "dropna P chunk = List.map_filter (\<lambda>(r, ts). keep r ts) (zip chunk (assign_note_ts P chunk))"


text \<open>
  \<^verbatim>\<open>lang = chunk["language"].fillna("unk").astype(str)\<close>
\<close>

definition lang_of :: "note_row \<Rightarrow> string" where
  "lang_of n = (case lang_raw n of None \<Rightarrow> ''unk'' | Some l \<Rightarrow> l)"

text \<open>
  \<^verbatim>\<open>note_ms = (chunk["note_ts"].astype("int64") // 1_000_000).astype("int64")\<close>: floor
  division of the nanosecond count.
\<close>

definition note_ms :: "note_row \<Rightarrow> int" where
  "note_ms n = sint (note_ts n) div 1000000"

text \<open>
  \<^verbatim>\<open>month = chunk["note_ts"].dt.tz_convert(None).dt.to_period("M").astype(str)\<close>. A
  month begins on a whole millisecond, so the month of the nanosecond instant is the
  month of its millisecond.
\<close>

definition month_of :: "'m pandas \<Rightarrow> note_row \<Rightarrow> 'm" where
  "month_of P n = to_period_M P (note_ms n)"

text \<open>
  \<^verbatim>\<open>tid_int = int(tid)\<close>: the dictionary key is the signed reading of the int64.
\<close>

definition tweet_key :: "note_row \<Rightarrow> int" where
  "tweet_key n = sint (tweet n)"

subsection \<open>pandas group operations\<close>

text \<open>
  \<^verbatim>\<open>Series.unique()\<close>: the distinct values in order of first appearance.
\<close>

fun unique :: "'a list \<Rightarrow> 'a list" where
  "unique [] = []"
| "unique (x # xs) = x # unique (filter (\<lambda>y. y \<noteq> x) xs)"

text \<open>
  \<^verbatim>\<open>Series.value_counts()\<close>: one pair per distinct value, most frequent first. Equal
  counts keep the order of first appearance (the sort is the stable insertion sort
  \<open>sort_key\<close> on the negated count).
\<close>

definition value_counts :: "'a list \<Rightarrow> ('a \<times> nat) list" where
  "value_counts xs =
     sort_key (\<lambda>(k, c). - int c) (map (\<lambda>k. (k, count_list xs k)) (unique xs))"

text \<open>
  \<^verbatim>\<open>d[k] += v\<close> on a \<^verbatim>\<open>defaultdict(int)\<close>: an existing key keeps its place, a new key is
  appended with \<open>0 + v\<close>.
\<close>

fun dict_add :: "'k \<Rightarrow> nat \<Rightarrow> ('k \<times> nat) list \<Rightarrow> ('k \<times> nat) list" where
  "dict_add k v [] = [(k, v)]"
| "dict_add k v ((k', c) # d) = (if k' = k then (k', c + v) # d else (k', c) # dict_add k v d)"

text \<open>\<^verbatim>\<open>d[k] = v\<close> on a \<^verbatim>\<open>dict\<close>.\<close>

fun dict_set :: "'k \<Rightarrow> 'v \<Rightarrow> ('k \<times> 'v) list \<Rightarrow> ('k \<times> 'v) list" where
  "dict_set k v [] = [(k, v)]"
| "dict_set k v ((k', c) # d) = (if k' = k then (k', v) # d else (k', c) # dict_set k v d)"

text \<open>Reading \<^verbatim>\<open>d[k]\<close> from a \<^verbatim>\<open>defaultdict(int)\<close>.\<close>

definition dict_get0 :: "('k \<times> nat) list \<Rightarrow> 'k \<Rightarrow> nat" where
  "dict_get0 d k = (case map_of d k of None \<Rightarrow> 0 | Some c \<Rightarrow> c)"

text \<open>
  \<^verbatim>\<open>for k, v in vc.items(): counts[k] += int(v)\<close>
\<close>

definition add_counts :: "('k \<times> nat) list \<Rightarrow> ('k \<times> nat) list \<Rightarrow> ('k \<times> nat) list" where
  "add_counts vc d = fold (\<lambda>(k, v). dict_add k v) vc d"

text \<open>
  \<^verbatim>\<open>for k, sub in chunk.groupby(key)["noteAuthorParticipantId"]:\<close>
  \<^verbatim>\<open>    vals = sub.dropna().astype(str).unique().tolist()\<close>
  \<^verbatim>\<open>    sets[str(k)].update(vals)\<close>
  The groups are listed here by first appearance of their key; pandas lists them by
  sorted key. Each group updates the set of its own key, and the sets are read by key
  only, so the order of the groups does not reach any output.
\<close>

definition groupby_authors :: "(note_row \<Rightarrow> 'k) \<Rightarrow> note_row list \<Rightarrow> ('k \<times> string list) list" where
  "groupby_authors key chunk =
     map (\<lambda>k. (k, unique (map author (filter (\<lambda>n. key n = k) chunk)))) (unique (map key chunk))"

definition update_sets :: "('k \<times> string list) list \<Rightarrow> ('k \<Rightarrow> string set) \<Rightarrow> ('k \<Rightarrow> string set)" where
  "update_sets groups f = fold (\<lambda>(k, vals) g. g(k := g k \<union> set vals)) groups f"

text \<open>
  \<^verbatim>\<open>min_per_tweet = tmp.groupby("tweetId", sort=False)["note_ms"].min()\<close>: one pair per
  subject of the chunk, in order of first appearance.
\<close>

definition min_per_tweet :: "note_row list \<Rightarrow> (int \<times> int) list" where
  "min_per_tweet chunk =
     map (\<lambda>t. (t, min_list (map note_ms (filter (\<lambda>n. tweet_key n = t) chunk))))
       (unique (map tweet_key chunk))"

text \<open>
  \<^verbatim>\<open>prev = earliest_note_ms_by_tweet.get(tid_int)\<close>
  \<^verbatim>\<open>if prev is None or ms_int < prev:\<close>
  \<^verbatim>\<open>    earliest_note_ms_by_tweet[tid_int] = ms_int\<close>
\<close>

definition merge_step :: "int \<times> int \<Rightarrow> (int \<times> int) list \<Rightarrow> (int \<times> int) list" where
  "merge_step = (\<lambda>(tid, ms) e.
        (case map_of e tid of
           None \<Rightarrow> dict_set tid ms e
         | Some prev \<Rightarrow> if ms < prev then dict_set tid ms e else e))"

definition merge_min :: "(int \<times> int) list \<Rightarrow> (int \<times> int) list \<Rightarrow> (int \<times> int) list" where
  "merge_min mins d = fold merge_step mins d"

subsection \<open>The accumulators and one pass of the loop\<close>

record 'm agg =
  month_note_counts :: "('m \<times> nat) list"
  month_authors :: "'m \<Rightarrow> string set"
  all_authors :: "string set"
  lang_note_counts :: "(string \<times> nat) list"
  lang_authors :: "string \<Rightarrow> string set"
  earliest_note_ms_by_tweet :: "(int \<times> int) list"
  total_rows :: nat
  dropped_rows :: nat

definition init_agg :: "'m agg" where
  "init_agg = \<lparr>month_note_counts = [], month_authors = (\<lambda>_. {}), all_authors = {},
     lang_note_counts = [], lang_authors = (\<lambda>_. {}), earliest_note_ms_by_tweet = [],
     total_rows = 0, dropped_rows = 0\<rparr>"

text \<open>
  The body of \<^verbatim>\<open>for chunk in reader:\<close>. \<^verbatim>\<open>total_rows += len(chunk)\<close> is executed on the
  chunk as read, before \<^verbatim>\<open>dropna\<close>; \<^verbatim>\<open>if chunk.empty: continue\<close> leaves every other
  accumulator as it was.
\<close>

definition process_chunk :: "'m pandas \<Rightarrow> raw_row list \<Rightarrow> 'm agg \<Rightarrow> 'm agg" where
  "process_chunk P raw s =
     (let chunk = dropna P raw;
          s1 = s\<lparr>total_rows := total_rows s + length raw,
                 dropped_rows := dropped_rows s + (length raw - length chunk)\<rparr>
      in if chunk = [] then s1
         else s1\<lparr>lang_note_counts := add_counts (value_counts (map lang_of chunk)) (lang_note_counts s1),
                 lang_authors := update_sets (groupby_authors lang_of chunk) (lang_authors s1),
                 month_note_counts :=
                   add_counts (value_counts (map (month_of P) chunk)) (month_note_counts s1),
                 month_authors := update_sets (groupby_authors (month_of P) chunk) (month_authors s1),
                 all_authors := all_authors s1 \<union> set (unique (map author chunk)),
                 earliest_note_ms_by_tweet :=
                   merge_min (min_per_tweet chunk) (earliest_note_ms_by_tweet s1)\<rparr>)"

text \<open>
  \<^verbatim>\<open>pd.read_csv(..., chunksize=chunksize)\<close>: consecutive chunks of \<open>chunksize\<close> rows, the
  last one shorter.
\<close>

function read_csv :: "nat \<Rightarrow> 'a list \<Rightarrow> 'a list list" where
  "read_csv chunksize rows =
     (if chunksize = 0 \<or> rows = [] then []
      else take chunksize rows # read_csv chunksize (drop chunksize rows))"
  by pat_completeness auto
termination
  by (relation "measure (\<lambda>(k, rows). length rows)") auto

declare read_csv.simps [simp del]

definition run_chunks :: "'m pandas \<Rightarrow> raw_row list list \<Rightarrow> 'm agg" where
  "run_chunks P cs = fold (process_chunk P) cs init_agg"

text \<open>The rows that the passes over a list of chunks retain, in the order read.\<close>

definition kept_notes :: "'m pandas \<Rightarrow> raw_row list list \<Rightarrow> note_row list" where
  "kept_notes P cs = concat (map (dropna P) cs)"

subsection \<open>Finalization\<close>

text \<open>\<^verbatim>\<open>Series.median()\<close>: NaN on an empty series, the mean of the two middle values on an even one.\<close>

definition median :: "rat list \<Rightarrow> rat option" where
  "median xs =
     (let s = sort xs; n = length s
      in if n = 0 then None
         else if odd n then Some (s ! (n div 2))
         else Some ((s ! (n div 2 - 1) + s ! (n div 2)) / 2))"

text \<open>
  \<^verbatim>\<open>tweet_ms = _tweet_id_to_timestamp_ms(tweet_ids)\<close>
  \<^verbatim>\<open>delta_hours = (first_note_ms - tweet_ms) / (1000 * 60 * 60)\<close>
  Both arrays are int64 (\<^verbatim>\<open>np.fromiter(..., dtype=np.int64)\<close>), so the difference wraps.
\<close>

definition delta_hours :: "int \<Rightarrow> int \<Rightarrow> rat" where
  "delta_hours tid first_note_ms =
     of_int (sint (word_of_int first_note_ms - tweet_id_to_timestamp_ms (word_of_int tid) :: 64 word))
       / (1000 * 60 * 60)"

text \<open>
  \<^verbatim>\<open>df_first = pd.DataFrame({"Month": first_month, "TimeToFirstNote_hours": delta_hours})\<close>
  \<^verbatim>\<open>df_first = df_first[(df_first[...].notna()) & (df_first[...] >= 0)]\<close>
\<close>

definition df_first :: "'m pandas \<Rightarrow> (int \<times> int) list \<Rightarrow> ('m \<times> rat) list" where
  "df_first P d =
     filter (\<lambda>(m, h). 0 \<le> h) (map (\<lambda>(tid, ms). (to_period_M P ms, delta_hours tid ms)) d)"

text \<open>
  \<^verbatim>\<open>first_median = df_first.groupby("Month")["TimeToFirstNote_hours"].median()\<close>, read at one
  month by the left merge \<^verbatim>\<open>monthly.merge(first_median, on="Month", how="left")\<close>.
\<close>

definition first_median :: "'m pandas \<Rightarrow> (int \<times> int) list \<Rightarrow> 'm \<Rightarrow> rat option" where
  "first_median P d m = median (map snd (filter (\<lambda>(m', h). m' = m) (df_first P d)))"

record 'm monthly_row =
  Month :: 'm
  Notes :: nat
  Active_Authors :: nat
  Notes_per_Author :: "rat option"
  MonthStart :: int
  Median_TimeToFirstNote_hours :: "rat option"

record totals =
  total_notes :: nat
  total_contributors :: nat
  total_distinct_posts :: nat
  totals_dropped_rows :: nat

record lang_row =
  Language :: string
  lang_Notes :: nat
  Notes_Share :: "rat option"
  Unique_Authors :: nat

text \<open>
  \<^verbatim>\<open>months = sorted(month_note_counts.keys())\<close>
  \<^verbatim>\<open>monthly["Notes_per_Author"] = monthly["Notes"] / monthly["Active_Authors"].replace({0: np.nan})\<close>
\<close>

definition monthly_table :: "('m::linorder) pandas \<Rightarrow> 'm agg \<Rightarrow> 'm monthly_row list" where
  "monthly_table P s =
     map (\<lambda>m.
        (let notes = dict_get0 (month_note_counts s) m;
             active = card (month_authors s m)
         in \<lparr>Month = m, Notes = notes, Active_Authors = active,
             Notes_per_Author = (if active = 0 then None else Some (of_nat notes / of_nat active)),
             MonthStart = month_start P m,
             Median_TimeToFirstNote_hours = first_median P (earliest_note_ms_by_tweet s) m\<rparr>))
       (sort (map fst (month_note_counts s)))"

definition totals_of :: "'m agg \<Rightarrow> totals" where
  "totals_of s = \<lparr>total_notes = total_rows s, total_contributors = card (all_authors s),
     total_distinct_posts = length (earliest_note_ms_by_tweet s),
     totals_dropped_rows = dropped_rows s\<rparr>"

text \<open>
  \<^verbatim>\<open>"Notes_Share": (float(v) / float(total_rows)) if total_rows else np.nan\<close>
\<close>

definition lang_rows :: "'m agg \<Rightarrow> lang_row list" where
  "lang_rows s =
     map (\<lambda>(k, v). \<lparr>Language = k, lang_Notes = v,
            Notes_Share = (if total_rows s \<noteq> 0 then Some (of_nat v / of_nat (total_rows s)) else None),
            Unique_Authors = card (lang_authors s k)\<rparr>) (lang_note_counts s)"

text \<open>
  \<^verbatim>\<open>lang_df = pd.DataFrame(lang_rows).sort_values("Notes", ascending=False)\<close>: rows with
  equal \<^verbatim>\<open>Notes\<close> keep the order in which the dictionary lists them.
\<close>

definition lang_table :: "'m agg \<Rightarrow> lang_row list" where
  "lang_table s = sort_key (\<lambda>r. - int (lang_Notes r)) (lang_rows s)"

text \<open>
  \<^verbatim>\<open>def compute_monthly_metrics(notes_csv, chunksize=200_000)\<close>. The file is the list of
  its rows. Three ways in which the function raises instead of returning:
  \<^item> the reader refuses a chunk size below one (\<^verbatim>\<open>ValueError\<close>);
  \<^item> the reader cannot store an empty \<^verbatim>\<open>tweetId\<close> cell in an \<^verbatim>\<open>int64\<close> column and
    raises \<^verbatim>\<open>ValueError\<close> when it reaches the chunk that holds it, so the
    \<^verbatim>\<open>"tweetId"\<close> entry of \<^verbatim>\<open>dropna\<close> never finds a row to drop;
  \<^item> when no row at all is retained, \<^verbatim>\<open>months\<close> is empty, the frame \<^verbatim>\<open>monthly\<close> has an
    empty numeric \<^verbatim>\<open>Month\<close> column and \<^verbatim>\<open>monthly["Month"] + "-01"\<close> raises
    (\<^verbatim>\<open>TypeError\<close>); \<^verbatim>\<open>pd.DataFrame([]).sort_values("Notes")\<close> further down would
    raise as well.
\<close>

definition compute_monthly_metrics ::
  "('m::linorder) pandas \<Rightarrow> raw_row list \<Rightarrow> int
     \<Rightarrow> error + ('m monthly_row list \<times> totals \<times> lang_row list)" where
  "compute_monthly_metrics P notes_csv chunksize =
     (if chunksize < 1 then Inl ValueError
      else if \<exists>r \<in> set notes_csv. tweetId r = None then Inl ValueError
      else (let s = run_chunks P (read_csv (nat chunksize) notes_csv)
            in if month_note_counts s = [] then Inl TypeError
               else Inr (monthly_table P s, totals_of s, lang_table s)))"

text \<open>
  \<^verbatim>\<open>CHATGPT_BREAK = pd.Timestamp("2022-11-01", tz="UTC")\<close>, and in the robustness script
  \<^verbatim>\<open>pd.Timestamp("2022-11-01")\<close>.
\<close>

definition CHATGPT_BREAK :: int where
  "CHATGPT_BREAK = 1667260800000"

text \<open>
  The first two lines of \<^verbatim>\<open>summarize_pre_post\<close>:
  \<^verbatim>\<open>pre = monthly[monthly["MonthStart"] < CHATGPT_BREAK]\<close>
  \<^verbatim>\<open>post = monthly[monthly["MonthStart"] >= CHATGPT_BREAK]\<close>
\<close>

definition summarize_pre :: "'m monthly_row list \<Rightarrow> 'm monthly_row list" where
  "summarize_pre monthly = filter (\<lambda>r. MonthStart r < CHATGPT_BREAK) monthly"

definition summarize_post :: "'m monthly_row list \<Rightarrow> 'm monthly_row list" where
  "summarize_post monthly = filter (\<lambda>r. CHATGPT_BREAK \<le> MonthStart r) monthly"

text \<open>
  The accumulators that a list of retained rows and a number of rows read determine; it
  is the invariant of the loop.
\<close>

definition agg_of :: "'m pandas \<Rightarrow> note_row list \<Rightarrow> nat \<Rightarrow> 'm agg \<Rightarrow> bool" where
  "agg_of P ns n s \<longleftrightarrow>
        length ns \<le> n
      \<and> total_rows s = n
      \<and> dropped_rows s = n - length ns
      \<and> distinct (map fst (month_note_counts s))
      \<and> map_of (month_note_counts s) =
          (\<lambda>m. if m \<in> month_of P ` set ns then Some (count_list (map (month_of P) ns) m) else None)
      \<and> month_authors s = (\<lambda>m. author ` {n \<in> set ns. month_of P n = m})
      \<and> all_authors s = author ` set ns
      \<and> distinct (map fst (lang_note_counts s))
      \<and> map_of (lang_note_counts s) =
          (\<lambda>k. if k \<in> lang_of ` set ns then Some (count_list (map lang_of ns) k) else None)
      \<and> lang_authors s = (\<lambda>k. author ` {n \<in> set ns. lang_of n = k})
      \<and> distinct (map fst (earliest_note_ms_by_tweet s))
      \<and> map_of (earliest_note_ms_by_tweet s) =
          (\<lambda>t. if t \<in> tweet_key ` set ns
               then Some (Min (note_ms ` {n \<in> set ns. tweet_key n = t})) else None)"


section \<open>The placebo comparator and the robustness report\<close>

text \<open>
  A series is the frame \<^verbatim>\<open>df[['date', col]]\<close>: one row per period, with the period's
  timestamp and the value of the analysed column, which may be missing.
\<close>

record trend_row =
  trend_date :: int
  trend_col :: "rat option"

text \<open>
  The statistics routines the script calls:
  \<^item> \<open>mannwhitneyu\<close> is \<^verbatim>\<open>stats.mannwhitneyu(pre, post, alternative='less')\<close>, giving the
    statistic and the p-value;
  \<^item> \<open>OLS_HAC\<close> is \<^verbatim>\<open>OLS(y, X).fit(cov_type='HAC', cov_kwds={'maxlags': lags})\<close> for the
    design \<^verbatim>\<open>const, time, post, time_post\<close>; its arguments are \<open>y\<close>, the rows
    \<open>(time, post, time_post)\<close> of \<open>X\<close> and \<open>lags\<close>.
\<close>

record ols_model =
  params_time :: rat
  params_post :: rat
  params_time_post :: rat
  pvalues_time_post :: rat
  pvalues_post :: rat
  rsquared :: rat

record stats =
  mannwhitneyu :: "rat list \<Rightarrow> rat list \<Rightarrow> rat \<times> rat"
  OLS_HAC :: "rat list \<Rightarrow> (int \<times> int \<times> int) list \<Rightarrow> nat \<Rightarrow> ols_model"

record segmented =
  n_pre :: nat
  n_post :: nat
  slope_pre :: rat
  slope_change :: rat
  slope_post :: rat
  p_slope_change_hac :: rat
  level_change :: rat
  p_level_change_hac :: rat
  r_squared :: rat

text \<open>
  \<^verbatim>\<open>d = df[['date', col]].dropna().sort_values('date').copy()\<close>
\<close>

definition segmented_frame :: "trend_row list \<Rightarrow> (int \<times> rat) list" where
  "segmented_frame df =
     sort_key fst (List.map_filter (\<lambda>r. map_option (Pair (trend_date r)) (trend_col r)) df)"

text \<open>
  \<^verbatim>\<open>def _fit_segmented(df, col, break_dt, maxlags=6)\<close>:
  \<^verbatim>\<open>d['time'] = np.arange(len(d)); d['post'] = (d['date'] >= break_dt).astype(int)\<close>
  \<^verbatim>\<open>if n_pre < 12 or n_post < 12: return None\<close>
  \<^verbatim>\<open>lags = int(min(maxlags, max(0, len(d) - 1)))\<close>
\<close>

definition fit_segmented :: "stats \<Rightarrow> trend_row list \<Rightarrow> int \<Rightarrow> nat \<Rightarrow> segmented option" where
  "fit_segmented L df break_dt maxlags =
     (let d = segmented_frame df;
          time = map int [0..<length d];
          post = map (\<lambda>(dt, y). if break_dt \<le> dt then 1 else (0::int)) d;
          time_post = map (\<lambda>(t, p). t * p) (zip time post);
          npre = length (filter (\<lambda>p. p = 0) post);
          npost = length (filter (\<lambda>p. p = 1) post)
      in if npre < 12 \<or> npost < 12 then None
         else
           (let lags = min maxlags (max 0 (length d - 1));
                model = OLS_HAC L (map snd d) (zip time (zip post time_post)) lags
            in Some \<lparr>n_pre = npre, n_post = npost,
                 slope_pre = params_time model,
                 slope_change = params_time_post model,
                 slope_post = params_time model + params_time_post model,
                 p_slope_change_hac = pvalues_time_post model,
                 level_change = params_post model,
                 p_level_change_hac = pvalues_post model,
                 r_squared = rsquared model\<rparr>))"

text \<open>
  \<^verbatim>\<open>df[df['date'] < break_dt]\<close> and \<^verbatim>\<open>df[df['date'] >= break_dt]\<close>: the rows on each
  side of a breakpoint.
\<close>

definition rows_before :: "trend_row list \<Rightarrow> int \<Rightarrow> trend_row list" where
  "rows_before df break_dt = filter (\<lambda>r. trend_date r < break_dt) df"

definition rows_after :: "trend_row list \<Rightarrow> int \<Rightarrow> trend_row list" where
  "rows_after df break_dt = filter (\<lambda>r. break_dt \<le> trend_date r) df"

text \<open>
  \<^verbatim>\<open>pre = df[df['date'] < break_dt][col].dropna()\<close>
  \<^verbatim>\<open>post = df[df['date'] >= break_dt][col].dropna()\<close>
\<close>

definition placebo_pre :: "trend_row list \<Rightarrow> int \<Rightarrow> rat list" where
  "placebo_pre df break_dt = List.map_filter trend_col (rows_before df break_dt)"

definition placebo_post :: "trend_row list \<Rightarrow> int \<Rightarrow> rat list" where
  "placebo_post df break_dt = List.map_filter trend_col (rows_after df break_dt)"

record placebo_row =
  break_date :: int
  is_chatgpt :: bool
  pre_median :: "rat option"
  post_median :: "rat option"
  effect_pct :: "rat option"
  p_value :: rat
  significant :: bool
  its_slope_pre :: "rat option"
  its_slope_change :: "rat option"
  its_slope_post :: "rat option"
  its_slope_change_p_hac :: "rat option"
  its_n_pre :: "nat option"
  its_n_post :: "nat option"
  its_r_squared :: "rat option"

text \<open>
  \<^verbatim>\<open>effect = (post.median() - pre.median()) / pre.median() * 100 if pre.median() > 0 else 0\<close>.
  A comparison with NaN is false, and arithmetic on NaN is NaN.
\<close>

definition effect_of :: "rat option \<Rightarrow> rat option \<Rightarrow> rat option" where
  "effect_of pre_m post_m =
     (if (case pre_m of None \<Rightarrow> False | Some a \<Rightarrow> 0 < a)
      then (case (pre_m, post_m) of
              (Some a, Some b) \<Rightarrow> Some ((b - a) / a * 100)
            | _ \<Rightarrow> None)
      else Some 0)"

text \<open>
  The body of \<^verbatim>\<open>for break_date in [real_break.strftime("%Y-%m-%d")] + placebo_breaks:\<close>
  for one date. A date string is written as the timestamp \<^verbatim>\<open>pd.to_datetime\<close> gives it.
  The result is \<open>None\<close> when \<^verbatim>\<open>if len(pre) > 5 and len(post) > 5:\<close> fails: nothing is
  appended to \<^verbatim>\<open>results\<close> then.
\<close>

definition placebo_at :: "stats \<Rightarrow> trend_row list \<Rightarrow> int \<Rightarrow> int \<Rightarrow> placebo_row option" where
  "placebo_at L df real_break break_dt =
     (let pre = placebo_pre df break_dt;
          post = placebo_post df break_dt
      in if 5 < length pre \<and> 5 < length post
         then
           (let p = snd (mannwhitneyu L pre post);
                seg = fit_segmented L df break_dt 6
            in Some \<lparr>break_date = break_dt,
                 is_chatgpt = (break_dt = real_break),
                 pre_median = median pre,
                 post_median = median post,
                 effect_pct = effect_of (median pre) (median post),
                 p_value = p,
                 significant = (p < 1 / 1000),
                 its_slope_pre = map_option slope_pre seg,
                 its_slope_change = map_option slope_change seg,
                 its_slope_post = map_option slope_post seg,
                 its_slope_change_p_hac = map_option p_slope_change_hac seg,
                 its_n_pre = map_option n_pre seg,
                 its_n_post = map_option n_post seg,
                 its_r_squared = map_option r_squared seg\<rparr>)
         else None)"

text \<open>
  \<^verbatim>\<open>real_break.strftime("%Y-%m-%d")\<close> read back by \<^verbatim>\<open>pd.to_datetime\<close>: midnight of the day
  of the real break.
\<close>

definition strftime_ymd :: "int \<Rightarrow> int" where
  "strftime_ymd t = t - t mod 86400000"

text \<open>
  The default of \<^verbatim>\<open>placebo_breaks\<close>: 2020-03-01, 2021-01-01, 2021-06-01, 2022-01-01,
  2022-10-01, 2022-12-01, 2023-01-01, 2023-06-01.
\<close>

definition placebo_breaks :: "int list" where
  "placebo_breaks = [1583020800000, 1609459200000, 1622505600000, 1640995200000,
     1664582400000, 1669852800000, 1672531200000, 1685577600000]"

text \<open>
  \<^verbatim>\<open>def placebo_test(df, col, real_break=CHATGPT_BREAK, placebo_breaks=None)\<close>
\<close>

definition placebo_test :: "stats \<Rightarrow> trend_row list \<Rightarrow> int \<Rightarrow> int list \<Rightarrow> placebo_row list" where
  "placebo_test L df real_break breaks =
     List.map_filter (placebo_at L df real_break) (strftime_ymd real_break # breaks)"

text \<open>\<^verbatim>\<open>Series.max()\<close>: missing values are skipped; NaN when nothing is left.\<close>

definition series_max :: "rat option list \<Rightarrow> rat option" where
  "series_max xs =
     (case List.map_filter id xs of [] \<Rightarrow> None | y # ys \<Rightarrow> Some (fold max ys y))"

text \<open>A comparison of two floats of which either may be NaN.\<close>

definition nan_gt :: "rat option \<Rightarrow> rat option \<Rightarrow> bool" where
  "nan_gt a b = (case (a, b) of (Some x, Some y) \<Rightarrow> y < x | _ \<Rightarrow> False)"

record robustness_row =
  chatgpt_median_effect_pct :: "rat option"
  max_placebo_effect_pct :: "rat option"
  chatgpt_median_strongest :: bool
  chatgpt_its_slope_change :: "rat option"
  max_placebo_its_slope_change :: "rat option"
  chatgpt_its_slope_strongest :: bool

text \<open>
  The part of the loop body of \<^verbatim>\<open>run_robustness\<close> that compares the real break with
  the placebo dates, for one series:
  \<^verbatim>\<open>placebo_results = placebo_test(df, col)\<close>
  \<^verbatim>\<open>chat_row = placebo_results[placebo_results['is_chatgpt']].iloc[0]\<close>
  \<^verbatim>\<open>max_placebo = float(placebo_results[~placebo_results['is_chatgpt']]['effect_pct'].max())\<close>
  \<^verbatim>\<open>chatgpt_strongest = bool(chatgpt_effect > max_placebo)\<close>
  \<^verbatim>\<open>chatgpt_slope_strongest = bool(np.isfinite(chat_slope_change) and\<close>
  \<^verbatim>\<open>    np.isfinite(placebo_slope_max) and chat_slope_change > placebo_slope_max)\<close>
  A frame built from an empty list has no column \<^verbatim>\<open>is_chatgpt\<close>, and \<^verbatim>\<open>.iloc[0]\<close> of an
  empty selection raises. The pre-trend columns of the report row come from
  \<^verbatim>\<open>pre_trend_test\<close> and are left out here.
\<close>

definition run_robustness :: "stats \<Rightarrow> trend_row list \<Rightarrow> error + robustness_row" where
  "run_robustness L df =
     (let placebo_results = placebo_test L df CHATGPT_BREAK placebo_breaks
      in if placebo_results = [] then Inl KeyError
         else
           (case filter is_chatgpt placebo_results of
              [] \<Rightarrow> Inl IndexError
            | chat_row # _ \<Rightarrow>
                (let others = filter (\<lambda>r. \<not> is_chatgpt r) placebo_results;
                     chatgpt_effect = effect_pct chat_row;
                     max_placebo = series_max (map effect_pct others);
                     chat_slope_change = its_slope_change chat_row;
                     placebo_slope_max = series_max (map its_slope_change others)
                 in Inr \<lparr>chatgpt_median_effect_pct = chatgpt_effect,
                      max_placebo_effect_pct = max_placebo,
                      chatgpt_median_strongest = nan_gt chatgpt_effect max_placebo,
                      chatgpt_its_slope_change = chat_slope_change,
                      max_placebo_its_slope_change = placebo_slope_max,
                      chatgpt_its_slope_strongest = nan_gt chat_slope_change placebo_slope_max\<rparr>)))"

section \<open>Example inputs\<close>

text \<open>
  A calendar for the examples: the proleptic Gregorian month of a millisecond instant,
  labelled \<open>100 * year + month\<close> (so that labels order as the strings \<^verbatim>\<open>YYYY-MM\<close> do),
  and the first instant of a labelled month.
\<close>

definition ex_to_period_M :: "int \<Rightarrow> int" where
  "ex_to_period_M ms =
     (let z = ms div 86400000 + 719468;
          era = z div 146097;
          doe = z - era * 146097;
          yoe = (doe - doe div 1460 + doe div 36524 - doe div 146096) div 365;
          doy = doe - (365 * yoe + yoe div 4 - yoe div 100);
          mp = (5 * doy + 2) div 153;
          m = (if mp < 10 then mp + 3 else mp - 9);
          y = yoe + era * 400 + (if m \<le> 2 then 1 else 0)
      in 100 * y + m)"

definition ex_month_start :: "int \<Rightarrow> int" where
  "ex_month_start label =
     (let y0 = label div 100; m = label mod 100;
          y = (if m \<le> 2 then y0 - 1 else y0);
          era = y div 400;
          yoe = y - era * 400;
          doy = (153 * (if 2 < m then m - 3 else m + 9) + 2) div 5;
          doe = yoe * 365 + yoe div 4 - yoe div 100 + doy
      in (era * 146097 + doe - 719468) * 86400000)"

text \<open>
  A parser in the manner of pandas: it knows four timestamp strings, takes the format
  (here: the length) from the first entry of the column it is given, and rejects every
  entry that is written differently or that it does not know.
\<close>

definition ex_table :: "string \<Rightarrow> 64 word option" where
  "ex_table = map_of
       [(''2022-12-31 23:00:00'', 1672527600000000000),
        (''2023-01-15 12:00:00'', 1673784000000000000),
        (''2023-01-15 12:00'', 1673784000000000000),
        (''2023-02-01 00:00:00'', 1675209600000000000)]"

definition ex_to_datetime :: "string list \<Rightarrow> nat \<Rightarrow> 64 word option" where
  "ex_to_datetime strs i =
     (case strs of
        [] \<Rightarrow> None
      | s0 # _ \<Rightarrow>
          if i < length strs \<and> length (strs ! i) = length s0 then ex_table (strs ! i) else None)"

definition ex_pandas :: "int pandas" where
  "ex_pandas = \<lparr>to_datetime = ex_to_datetime,
     to_period_M = ex_to_period_M, month_start = ex_month_start\<rparr>"

definition ex_note :: "string \<Rightarrow> string \<Rightarrow> raw_row" where
  "ex_note a l = \<lparr>noteAuthorParticipantId = Some a, tweetId = Some 1600000000000000000,
      date = Some ''2023-01-15'', Timestamp = Some ''12:00:00'', language = Some l\<rparr>"

definition ex_notes :: "raw_row list" where
  "ex_notes = [ex_note ''a'' ''en'', ex_note ''b'' ''fr'', ex_note ''a'' ''fr'', ex_note ''c'' ''en'']"

definition ex_no_author :: raw_row where
  "ex_no_author = \<lparr>noteAuthorParticipantId = None, tweetId = Some 1600000000000000000,
      date = Some ''2023-01-15'', Timestamp = Some ''12:00:00'', language = Some ''en''\<rparr>"

definition ex_bad_time :: raw_row where
  "ex_bad_time = \<lparr>noteAuthorParticipantId = Some ''d'', tweetId = Some 1600000000000000000,
      date = Some ''2023-01-15'', Timestamp = None, language = Some ''de''\<rparr>"

text \<open>
  A note whose time of day is written without seconds, and a source that mixes the two
  ways of writing.
\<close>

definition ex_no_seconds :: raw_row where
  "ex_no_seconds = \<lparr>noteAuthorParticipantId = Some ''g'', tweetId = Some 1600000000000000000,
      date = Some ''2023-01-15'', Timestamp = Some ''12:00'', language = Some ''en''\<rparr>"

definition ex_formats :: "raw_row list" where
  "ex_formats = [ex_note ''a'' ''en'', ex_no_seconds]"

definition ex_two :: "raw_row list" where
  "ex_two = [ex_note ''a'' ''en'', ex_no_author]"

text \<open>
  A note of 2023-02-01 on a subject whose identifier decodes to a later instant
  (2023-09-08), and a note of 2023-02-01 on the subject of \<open>ex_note\<close>.
\<close>

definition ex_future :: raw_row where
  "ex_future = \<lparr>noteAuthorParticipantId = Some ''e'', tweetId = Some 1700000000000000000,
      date = Some ''2023-02-01'', Timestamp = Some ''00:00:00'', language = None\<rparr>"

definition ex_late :: raw_row where
  "ex_late = \<lparr>noteAuthorParticipantId = Some ''f'', tweetId = Some 1600000000000000000,
      date = Some ''2023-02-01'', Timestamp = Some ''00:00:00'', language = Some ''en''\<rparr>"

definition ex_mixed :: "raw_row list" where
  "ex_mixed = [ex_note ''a'' ''en'', ex_future, ex_no_author]"

text \<open>The output of \<open>compute_monthly_metrics\<close> on \<open>ex_mixed\<close>.\<close>

definition ex_row_jan :: "int monthly_row" where
  "ex_row_jan = \<lparr>Month = 202301, Notes = 1, Active_Authors = 1, Notes_per_Author = Some 1,
      MonthStart = 1672531200000, Median_TimeToFirstNote_hours = Some (3479298781 / 3600000)\<rparr>"

definition ex_row_feb :: "int monthly_row" where
  "ex_row_feb = \<lparr>Month = 202302, Notes = 1, Active_Authors = 1, Notes_per_Author = Some 1,
      MonthStart = 1675209600000, Median_TimeToFirstNote_hours = None\<rparr>"

definition ex_mixed_totals :: totals where
  "ex_mixed_totals = \<lparr>total_notes = 3, total_contributors = 2, total_distinct_posts = 2,
      totals_dropped_rows = 1\<rparr>"

definition ex_mixed_lang :: "lang_row list" where
  "ex_mixed_lang =
     [\<lparr>Language = ''en'', lang_Notes = 1, Notes_Share = Some (1 / 3), Unique_Authors = 1\<rparr>,
      \<lparr>Language = ''unk'', lang_Notes = 1, Notes_Share = Some (1 / 3), Unique_Authors = 1\<rparr>]"

text \<open>Accumulators in which a month has a count and no author.\<close>

definition ex_no_authors :: "int agg" where
  "ex_no_authors = init_agg\<lparr>month_note_counts := [(202301, 3)]\<rparr>"

definition ex_row_no_authors :: "int monthly_row" where
  "ex_row_no_authors = \<lparr>Month = 202301, Notes = 3, Active_Authors = 0, Notes_per_Author = None,
      MonthStart = 1672531200000, Median_TimeToFirstNote_hours = None\<rparr>"

text \<open>
  Monthly series for the comparator: the first days of 2022-05 to 2023-05, and series on
  them. The statistics record is a stand-in that returns fixed numbers: the examples
  below are about which statistics are computed, not about their values.
\<close>

definition ex_dates :: "int list" where
  "ex_dates = [1651363200000, 1654041600000, 1656633600000, 1659312000000, 1661990400000,
     1664582400000, 1667260800000, 1669852800000, 1672531200000, 1675209600000,
     1677628800000, 1680307200000, 1682899200000]"

definition ex_series :: "int list \<Rightarrow> rat list \<Rightarrow> trend_row list" where
  "ex_series ds vs = map (\<lambda>(d, v). \<lparr>trend_date = d, trend_col = Some v\<rparr>) (zip ds vs)"

definition ex_jump :: "trend_row list" where
  "ex_jump = ex_series ex_dates [10, 10, 10, 10, 10, 10, 26, 25, 24, 23, 22, 21, 20]"

definition ex_year :: "trend_row list" where
  "ex_year = ex_series ex_dates [10, 10, 10, 10, 10, 10, 20, 20, 20, 20, 20, 20]"

definition ex_zero :: "trend_row list" where
  "ex_zero = ex_series ex_dates [0, 0, 0, 0, 0, 0, 5, 5, 5, 5, 5, 5]"

definition ex_short :: "trend_row list" where
  "ex_short = ex_series (drop 3 ex_dates) [10, 10, 10, 20, 20, 20]"

definition ex_gap :: trend_row where
  "ex_gap = \<lparr>trend_date = 1664582400000, trend_col = None\<rparr>"

definition ex_stats :: stats where
  "ex_stats = \<lparr>mannwhitneyu = (\<lambda>pre post. (0, 1)),
     OLS_HAC = (\<lambda>y X lags. \<lparr>params_time = 0, params_post = 0, params_time_post = 0,
        pvalues_time_post = 1, pvalues_post = 1, rsquared = 0\<rparr>)\<rparr>"

definition ex_row_oct :: "int monthly_row" where
  "ex_row_oct = \<lparr>Month = 202210, Notes = 2, Active_Authors = 1, Notes_per_Author = Some 2,
      MonthStart = 1664582400000, Median_TimeToFirstNote_hours = None\<rparr>"

definition ex_row_nov :: "int monthly_row" where
  "ex_row_nov = \<lparr>Month = 202211, Notes = 2, Active_Authors = 1, Notes_per_Author = Some 2,
      MonthStart = 1667260800000, Median_TimeToFirstNote_hours = None\<rparr>"

text \<open>Two years of months, 2021-11 to 2023-10: twelve on each side of the real break.\<close>

definition ex_dates_long :: "int list" where
  "ex_dates_long = [1635724800000, 1638316800000, 1640995200000, 1643673600000, 1646092800000,
     1648771200000, 1651363200000, 1654041600000, 1656633600000, 1659312000000, 1661990400000,
     1664582400000, 1667260800000, 1669852800000, 1672531200000, 1675209600000, 1677628800000,
     1680307200000, 1682899200000, 1685577600000, 1688169600000, 1690848000000, 1693526400000,
     1696118400000]"

definition ex_long :: "trend_row list" where
  "ex_long = ex_series ex_dates_long
     [10, 10, 10, 10, 10, 10, 10, 10, 10, 10, 10, 10, 20, 20, 20, 20, 20, 20, 20, 20, 20, 20, 20, 20]"

section \<open>Lemmas about the aggregator\<close>

subsection \<open>Dictionaries and group operations\<close>

lemma set_unique [simp]: "set (unique xs) = set xs"
  by (induction xs rule: unique.induct) auto

lemma distinct_unique [simp]: "distinct (unique xs)"
  by (induction xs rule: unique.induct) auto

lemma map_fst_value_counts_mset:
  "mset (map fst (value_counts xs)) = mset (unique xs)"
  by (simp add: value_counts_def multiset.map_comp comp_def)

lemma distinct_value_counts [simp]: "distinct (map fst (value_counts xs))"
  using map_fst_value_counts_mset [of xs] distinct_unique [of xs]
  by (metis mset_eq_imp_distinct_iff)

lemma set_value_counts [simp]:
  "set (value_counts xs) = (\<lambda>k. (k, count_list xs k)) ` set xs"
  by (simp add: value_counts_def)

lemma map_of_value_counts:
  "map_of (value_counts xs) k = (if k \<in> set xs then Some (count_list xs k) else None)"
proof (cases "k \<in> set xs")
  case True
  then have "(k, count_list xs k) \<in> set (value_counts xs)" by simp
  then show ?thesis using True by (simp add: map_of_eq_Some_iff [OF distinct_value_counts])
next
  case False
  then have "k \<notin> fst ` set (value_counts xs)" by (auto simp: image_iff)
  then show ?thesis using False by (simp add: map_of_eq_None_iff)
qed

lemma map_of_dict_add:
  "map_of (dict_add k v d) = (map_of d)(k \<mapsto> dict_get0 d k + v)"
  by (induction d) (auto simp: dict_get0_def fun_eq_iff)

lemma map_fst_dict_add:
  "map fst (dict_add k v d) = (if k \<in> fst ` set d then map fst d else map fst d @ [k])"
  by (induction d) (fastforce simp: image_iff)+

lemma keys_dict_add:
  "fst ` set (dict_add k v d) = insert k (fst ` set d)"
  using arg_cong [OF map_fst_dict_add [of k v d], of set] by (auto split: if_splits)

lemma distinct_dict_add:
  "distinct (map fst d) \<Longrightarrow> distinct (map fst (dict_add k v d))"
  by (simp add: map_fst_dict_add)

lemma map_of_dict_set:
  "map_of (dict_set k v d) = (map_of d)(k \<mapsto> v)"
  by (induction d) (auto simp: fun_eq_iff)

lemma map_fst_dict_set:
  "map fst (dict_set k v d) = (if k \<in> fst ` set d then map fst d else map fst d @ [k])"
  by (induction d) (fastforce simp: image_iff)+

lemma keys_dict_set:
  "fst ` set (dict_set k v d) = insert k (fst ` set d)"
  using arg_cong [OF map_fst_dict_set [of k v d], of set] by (auto split: if_splits)

lemma distinct_dict_set:
  "distinct (map fst d) \<Longrightarrow> distinct (map fst (dict_set k v d))"
  by (simp add: map_fst_dict_set)

lemma keys_add_counts:
  "fst ` set (add_counts vc d) = fst ` set vc \<union> fst ` set d"
  unfolding add_counts_def
  by (induction vc arbitrary: d) (simp_all add: keys_dict_add split_beta Un_commute insert_commute)

lemma distinct_add_counts:
  "distinct (map fst d) \<Longrightarrow> distinct (map fst (add_counts vc d))"
  unfolding add_counts_def
  by (induction vc arbitrary: d) (auto simp: distinct_dict_add)

lemma get0_add_counts:
  "distinct (map fst vc) \<Longrightarrow>
   dict_get0 (add_counts vc d) k = dict_get0 d k + dict_get0 vc k"
  unfolding add_counts_def
proof (induction vc arbitrary: d)
  case Nil
  then show ?case by (simp add: dict_get0_def)
next
  case (Cons a vc)
  obtain k' v where a: "a = (k', v)" by (cases a)
  have nk: "map_of vc k' = None"
    using Cons.prems by (simp add: a map_of_eq_None_iff image_iff)
  show ?case
    using Cons.prems Cons.IH [of "dict_add k' v d"] nk
    by (auto simp: a dict_get0_def map_of_dict_add)
qed

lemma map_of_add_counts:
  assumes "distinct (map fst vc)"
  shows "map_of (add_counts vc d) k =
     (case map_of vc k of None \<Rightarrow> map_of d k | Some v \<Rightarrow> Some (dict_get0 d k + v))"
  using assms unfolding add_counts_def
proof (induction vc arbitrary: d)
  case Nil
  then show ?case by simp
next
  case (Cons a vc)
  obtain k' v where a: "a = (k', v)" by (cases a)
  have nk: "map_of vc k' = None"
    using Cons.prems by (simp add: a map_of_eq_None_iff image_iff)
  show ?case
    using Cons.prems Cons.IH [of "dict_add k' v d"] nk
    by (auto simp: a dict_get0_def map_of_dict_add split: option.splits)
qed

lemma update_sets_apply:
  "update_sets groups f k = f k \<union> \<Union> (set ` snd ` {g \<in> set groups. fst g = k})"
  unfolding update_sets_def
proof (induction groups arbitrary: f)
  case Nil
  then show ?case by simp
next
  case (Cons a groups)
  obtain k' vals where a: "a = (k', vals)" by (cases a)
  have split: "{g \<in> set (a # groups). fst g = k} =
      (if k' = k then insert a {g \<in> set groups. fst g = k} else {g \<in> set groups. fst g = k})"
    by (auto simp: a)
  show ?case
    by (simp only: fold_simps split Cons.IH) (auto simp: a)
qed

lemma groupby_authors_groups:
  "\<Union> (set ` snd ` {g \<in> set (groupby_authors key chunk). fst g = k}) =
     author ` {n \<in> set chunk. key n = k}"
  by (auto simp: groupby_authors_def)

lemma update_sets_groupby:
  "update_sets (groupby_authors key chunk) f =
     (\<lambda>k. f k \<union> author ` {n \<in> set chunk. key n = k})"
  by (rule ext) (simp only: update_sets_apply groupby_authors_groups)

lemma distinct_min_per_tweet [simp]: "distinct (map fst (min_per_tweet chunk))"
  by (simp add: min_per_tweet_def comp_def)

lemma map_of_min_per_tweet:
  "map_of (min_per_tweet chunk) t =
     (if t \<in> tweet_key ` set chunk
      then Some (Min (note_ms ` {n \<in> set chunk. tweet_key n = t})) else None)"
proof -
  have m: "map_of (min_per_tweet chunk) t =
      (if t \<in> tweet_key ` set chunk
       then Some (min_list (map note_ms (filter (\<lambda>n. tweet_key n = t) chunk))) else None)"
    unfolding min_per_tweet_def by (simp add: map_of_map_restrict restrict_map_def)
  show ?thesis
  proof (cases "t \<in> tweet_key ` set chunk")
    case True
    then have ne: "map note_ms (filter (\<lambda>n. tweet_key n = t) chunk) \<noteq> []"
      by (auto simp: filter_empty_conv)
    have "set (map note_ms (filter (\<lambda>n. tweet_key n = t) chunk)) =
        note_ms ` {n \<in> set chunk. tweet_key n = t}"
      by auto
    then show ?thesis
      using True m min_list_Min [OF ne] by simp
  next
    case False
    then show ?thesis using m by simp
  qed
qed

lemma map_of_merge_step:
  "map_of (merge_step (tid, ms) e) =
     (map_of e)(tid \<mapsto> (case map_of e tid of None \<Rightarrow> ms | Some prev \<Rightarrow> min ms prev))"
  by (auto simp: merge_step_def map_of_dict_set fun_eq_iff min_def split: option.splits)

lemma distinct_merge_step:
  "distinct (map fst e) \<Longrightarrow> distinct (map fst (merge_step p e))"
  by (cases p) (auto simp: merge_step_def distinct_dict_set split: option.splits)

lemma distinct_merge_min:
  "distinct (map fst d) \<Longrightarrow> distinct (map fst (merge_min mins d))"
  unfolding merge_min_def
  by (induction mins arbitrary: d) (auto simp: distinct_merge_step)

lemma map_of_merge_min:
  assumes "distinct (map fst mins)"
  shows "map_of (merge_min mins d) t =
     (case map_of mins t of
        None \<Rightarrow> map_of d t
      | Some ms \<Rightarrow> Some (case map_of d t of None \<Rightarrow> ms | Some prev \<Rightarrow> min ms prev))"
  using assms unfolding merge_min_def
proof (induction mins arbitrary: d)
  case Nil
  then show ?case by simp
next
  case (Cons a mins)
  obtain tid ms where a: "a = (tid, ms)" by (cases a)
  have nk: "map_of mins tid = None"
    using Cons.prems by (simp add: a map_of_eq_None_iff image_iff)
  show ?case
    using Cons.prems Cons.IH [of "merge_step (tid, ms) d"] nk
    by (auto simp: a map_of_merge_step split: option.splits)
qed

subsection \<open>The loop invariant\<close>

lemma length_map_filter_le: "length (List.map_filter f xs) \<le> length xs"
  by (simp add: map_filter_def)

lemma length_dropna: "length (dropna P a) \<le> length a"
  using length_map_filter_le [of "\<lambda>(r, ts). keep r ts" "zip a (assign_note_ts P a)"]
  by (simp add: dropna_def assign_note_ts_def)

lemma agg_of_init: "agg_of P [] 0 init_agg"
  by (simp add: agg_of_def init_agg_def)

lemma count_add_step:
  fixes key :: "note_row \<Rightarrow> 'k"
  assumes "map_of d = (\<lambda>k. if k \<in> key ` set ns then Some (count_list (map key ns) k) else None)"
  shows "map_of (add_counts (value_counts (map key chunk)) d) =
     (\<lambda>k. if k \<in> key ` set (ns @ chunk) then Some (count_list (map key (ns @ chunk)) k) else None)"
proof (rule ext)
  fix k
  have g: "dict_get0 d k = count_list (map key ns) k"
    using assms by (auto simp: dict_get0_def count_list_0_iff)
  show "map_of (add_counts (value_counts (map key chunk)) d) k =
     (if k \<in> key ` set (ns @ chunk) then Some (count_list (map key (ns @ chunk)) k) else None)"
    by (auto simp: map_of_add_counts map_of_value_counts g assms)
qed

lemma min_merge_step:
  assumes "map_of d = (\<lambda>t. if t \<in> tweet_key ` set ns
               then Some (Min (note_ms ` {n \<in> set ns. tweet_key n = t})) else None)"
  shows "map_of (merge_min (min_per_tweet chunk) d) =
     (\<lambda>t. if t \<in> tweet_key ` set (ns @ chunk)
          then Some (Min (note_ms ` {n \<in> set (ns @ chunk). tweet_key n = t})) else None)"
proof (rule ext)
  fix t
  let ?A = "{n \<in> set ns. tweet_key n = t}" and ?B = "{n \<in> set chunk. tweet_key n = t}"
  have u: "{n \<in> set (ns @ chunk). tweet_key n = t} = ?A \<union> ?B" by auto
  have both: "Min (note_ms ` ?A \<union> note_ms ` ?B) = min (Min (note_ms ` ?B)) (Min (note_ms ` ?A))"
    if "t \<in> tweet_key ` set ns" "t \<in> tweet_key ` set chunk"
  proof -
    have "note_ms ` ?A \<noteq> {}" "note_ms ` ?B \<noteq> {}" using that by auto
    then have "Min (note_ms ` ?A \<union> note_ms ` ?B) = min (Min (note_ms ` ?A)) (Min (note_ms ` ?B))"
      by (intro Min_Un) auto
    then show ?thesis by (simp add: min.commute)
  qed
  have onlyB: "?A = {}" if "t \<notin> tweet_key ` set ns" using that by auto
  have onlyA: "?B = {}" if "t \<notin> tweet_key ` set chunk" using that by auto
  show "map_of (merge_min (min_per_tweet chunk) d) t =
     (if t \<in> tweet_key ` set (ns @ chunk)
          then Some (Min (note_ms ` {n \<in> set (ns @ chunk). tweet_key n = t})) else None)"
    unfolding u
    by (simp add: map_of_merge_min map_of_min_per_tweet assms both onlyA onlyB image_Un)
qed

lemma agg_of_step:
  assumes "agg_of P ns n s"
  shows "agg_of P (ns @ dropna P raw) (n + length raw) (process_chunk P raw s)"
proof -
  let ?c = "dropna P raw"
  let ?s' = "process_chunk P raw s"
  note a = assms [unfolded agg_of_def]
  have l1: "length ns \<le> n"
    using a by blast
  have l2: "length ?c \<le> length raw"
    by (rule length_dropna)
  show ?thesis
  proof (cases "?c = []")
    case True
    then show ?thesis
      using a l1 by (simp add: agg_of_def process_chunk_def Let_def)
  next
    case False
    have set_sub: "\<And>key k. {n \<in> set (ns @ ?c). key n = k} =
        {n \<in> set ns. key n = k} \<union> {n \<in> set ?c. key n = (k::'k)}"
      by auto
    have p: "?s' = s\<lparr>total_rows := total_rows s + length raw,
                 dropped_rows := dropped_rows s + (length raw - length ?c),
                 lang_note_counts := add_counts (value_counts (map lang_of ?c)) (lang_note_counts s),
                 lang_authors := update_sets (groupby_authors lang_of ?c) (lang_authors s),
                 month_note_counts :=
                   add_counts (value_counts (map (month_of P) ?c)) (month_note_counts s),
                 month_authors := update_sets (groupby_authors (month_of P) ?c) (month_authors s),
                 all_authors := all_authors s \<union> set (unique (map author ?c)),
                 earliest_note_ms_by_tweet :=
                   merge_min (min_per_tweet ?c) (earliest_note_ms_by_tweet s)\<rparr>"
      using False by (simp add: process_chunk_def Let_def)
    have a4: "map_of (month_note_counts s) =
          (\<lambda>m. if m \<in> month_of P ` set ns
               then Some (count_list (map (month_of P) ns) m) else None)"
      and a8: "map_of (lang_note_counts s) =
          (\<lambda>k. if k \<in> lang_of ` set ns then Some (count_list (map lang_of ns) k) else None)"
      and a11: "map_of (earliest_note_ms_by_tweet s) =
          (\<lambda>t. if t \<in> tweet_key ` set ns
               then Some (Min (note_ms ` {n \<in> set ns. tweet_key n = t})) else None)"
      using a by blast+
    have e_m: "month_note_counts ?s' =
        add_counts (value_counts (map (month_of P) ?c)) (month_note_counts s)"
      and e_l: "lang_note_counts ?s' =
        add_counts (value_counts (map lang_of ?c)) (lang_note_counts s)"
      and e_e: "earliest_note_ms_by_tweet ?s' =
        merge_min (min_per_tweet ?c) (earliest_note_ms_by_tweet s)"
      by (simp_all add: p)
    have c0: "length (ns @ ?c) \<le> n + length raw"
      using l1 l2 by simp
    have c1: "total_rows ?s' = n + length raw"
      using a by (simp add: p)
    have c2: "dropped_rows ?s' = n + length raw - length (ns @ ?c)"
      using a l1 l2 by (simp add: p)
    have c3: "distinct (map fst (month_note_counts ?s'))"
      using a by (simp add: p distinct_add_counts)
    have c4: "map_of (month_note_counts ?s') =
          (\<lambda>m. if m \<in> month_of P ` set (ns @ ?c)
               then Some (count_list (map (month_of P) (ns @ ?c)) m) else None)"
      unfolding e_m by (rule count_add_step [OF a4])
    have c5: "month_authors ?s' = (\<lambda>m. author ` {n \<in> set (ns @ ?c). month_of P n = m})"
      unfolding p set_sub using a by (simp add: update_sets_groupby image_Un)
    have c6: "all_authors ?s' = author ` set (ns @ ?c)"
      using a by (simp add: p image_Un)
    have c7: "distinct (map fst (lang_note_counts ?s'))"
      using a by (simp add: p distinct_add_counts)
    have c8: "map_of (lang_note_counts ?s') =
          (\<lambda>k. if k \<in> lang_of ` set (ns @ ?c)
               then Some (count_list (map lang_of (ns @ ?c)) k) else None)"
      unfolding e_l by (rule count_add_step [OF a8])
    have c9: "lang_authors ?s' = (\<lambda>k. author ` {n \<in> set (ns @ ?c). lang_of n = k})"
      unfolding p set_sub using a by (simp add: update_sets_groupby image_Un)
    have c10: "distinct (map fst (earliest_note_ms_by_tweet ?s'))"
      using a by (simp add: p distinct_merge_min)
    have c11: "map_of (earliest_note_ms_by_tweet ?s') =
          (\<lambda>t. if t \<in> tweet_key ` set (ns @ ?c)
               then Some (Min (note_ms ` {n \<in> set (ns @ ?c). tweet_key n = t})) else None)"
      unfolding e_e by (rule min_merge_step [OF a11])
    show ?thesis
      unfolding agg_of_def
      using c0 c1 c2 c3 c4 c5 c6 c7 c8 c9 c10 c11 by blast
  qed
qed

lemma agg_of_fold:
  "agg_of P ns n s \<Longrightarrow>
     agg_of P (ns @ kept_notes P cs) (n + length (concat cs)) (fold (process_chunk P) cs s)"
proof (induction cs arbitrary: ns n s)
  case Nil
  then show ?case by (simp add: kept_notes_def)
next
  case (Cons c cs)
  have "agg_of P ((ns @ dropna P c) @ kept_notes P cs) ((n + length c) + length (concat cs))
      (fold (process_chunk P) cs (process_chunk P c s))"
    by (rule Cons.IH [OF agg_of_step [OF Cons.prems]])
  then show ?case by (simp add: kept_notes_def add.assoc)
qed

lemma agg_of_run_chunks: "agg_of P (kept_notes P cs) (length (concat cs)) (run_chunks P cs)"
  using agg_of_fold [OF agg_of_init, of P cs] by (simp add: run_chunks_def)








subsection \<open>The outputs are determined by the rows retained and the number of rows read\<close>




subsection \<open>A parser that treats each row alone\<close>







subsection \<open>One pass of the loop, field by field\<close>

lemma dropna_Nil [simp]: "dropna P [] = []"
  by (simp add: dropna_def map_filter_simps)

lemma value_counts_Nil [simp]: "value_counts [] = []"
  by (simp add: value_counts_def)

lemma process_chunk_total_rows:
  "total_rows (process_chunk P raw s) = total_rows s + length raw"
  by (simp add: process_chunk_def Let_def)

lemma process_chunk_dropped_rows:
  "dropped_rows (process_chunk P raw s) = dropped_rows s + (length raw - length (dropna P raw))"
  by (simp add: process_chunk_def Let_def)

lemma process_chunk_lang_note_counts:
  "lang_note_counts (process_chunk P raw s) =
     add_counts (value_counts (map lang_of (dropna P raw))) (lang_note_counts s)"
  by (simp add: process_chunk_def Let_def add_counts_def)

lemma process_chunk_lang_authors:
  "lang_authors (process_chunk P raw s) =
     update_sets (groupby_authors lang_of (dropna P raw)) (lang_authors s)"
  by (simp add: process_chunk_def Let_def update_sets_def groupby_authors_def)

lemma process_chunk_month_note_counts:
  "month_note_counts (process_chunk P raw s) =
     add_counts (value_counts (map (month_of P) (dropna P raw))) (month_note_counts s)"
  by (simp add: process_chunk_def Let_def add_counts_def)

lemma process_chunk_month_authors:
  "month_authors (process_chunk P raw s) =
     update_sets (groupby_authors (month_of P) (dropna P raw)) (month_authors s)"
  by (simp add: process_chunk_def Let_def update_sets_def groupby_authors_def)

lemma process_chunk_all_authors:
  "all_authors (process_chunk P raw s) = all_authors s \<union> author ` set (dropna P raw)"
  by (simp add: process_chunk_def Let_def)

lemma process_chunk_earliest:
  "earliest_note_ms_by_tweet (process_chunk P raw s) =
     merge_min (min_per_tweet (dropna P raw)) (earliest_note_ms_by_tweet s)"
  by (simp add: process_chunk_def Let_def merge_min_def min_per_tweet_def)

lemmas process_chunk_fields =
  process_chunk_total_rows process_chunk_dropped_rows process_chunk_lang_note_counts
  process_chunk_lang_authors process_chunk_month_note_counts process_chunk_month_authors
  process_chunk_all_authors process_chunk_earliest

subsection \<open>Evaluation of the examples\<close>






lemma read_csv_single:
  "0 < k \<Longrightarrow> rows \<noteq> [] \<Longrightarrow> length rows \<le> k \<Longrightarrow> read_csv k rows = [rows]"
  by (simp add: read_csv.simps [of k rows] read_csv.simps [of k "[]"])







lemma ex_read_mixed: "read_csv 200000 ex_mixed = [[ex_note ''a'' ''en'', ex_future, ex_no_author]]"
  by (simp add: read_csv_single ex_mixed_def)

lemma ex_pandas_sel:
  "to_datetime ex_pandas = ex_to_datetime"
  "to_period_M ex_pandas = ex_to_period_M"
  "month_start ex_pandas = ex_month_start"
  by (simp_all add: ex_pandas_def)

lemma ex_ts_string:
  "ts_string (ex_note a l) = ''2023-01-15 12:00:00''"
  "ts_string ex_future = ''2023-02-01 00:00:00''"
  "ts_string ex_late = ''2023-02-01 00:00:00''"
  "ts_string ex_no_author = ''2023-01-15 12:00:00''"
  "ts_string ex_bad_time = ''2023-01-15 <NA>''"
  "ts_string ex_no_seconds = ''2023-01-15 12:00''"
  by (simp_all add: ts_string_def astype_str_def ex_note_def ex_future_def ex_late_def
        ex_no_author_def ex_bad_time_def ex_no_seconds_def)

lemma ex_table_vals:
  "ex_table ''2023-01-15 12:00:00'' = Some 1673784000000000000"
  "ex_table ''2023-02-01 00:00:00'' = Some 1675209600000000000"
  "ex_table ''2023-01-15 12:00'' = Some 1673784000000000000"
  by (simp_all add: ex_table_def)

lemma ex_assign:
  "assign_note_ts ex_pandas [ex_note a l] = [Some 1673784000000000000]"
  "assign_note_ts ex_pandas [ex_note a l, ex_note b m, ex_note c n] =
     [Some 1673784000000000000, Some 1673784000000000000, Some 1673784000000000000]"
  "assign_note_ts ex_pandas [ex_late] = [Some 1675209600000000000]"
  "assign_note_ts ex_pandas [ex_no_seconds] = [Some 1673784000000000000]"
  "assign_note_ts ex_pandas [ex_note a l, ex_no_seconds] = [Some 1673784000000000000, None]"
  "assign_note_ts ex_pandas [ex_note a l, ex_no_author] =
     [Some 1673784000000000000, Some 1673784000000000000]"
  "assign_note_ts ex_pandas [ex_note a l, ex_future, ex_no_author] =
     [Some 1673784000000000000, Some 1675209600000000000, Some 1673784000000000000]"
  by (simp_all add: assign_note_ts_def ex_pandas_sel ex_to_datetime_def ex_ts_string ex_table_vals)

lemma ex_dropna:
  "dropna ex_pandas [ex_note a l] =
     [\<lparr>author = a, tweet = 1600000000000000000, note_ts = 1673784000000000000, lang_raw = Some l\<rparr>]"
  "dropna ex_pandas [ex_note a l, ex_note b m, ex_note c n] =
     [\<lparr>author = a, tweet = 1600000000000000000, note_ts = 1673784000000000000, lang_raw = Some l\<rparr>,
      \<lparr>author = b, tweet = 1600000000000000000, note_ts = 1673784000000000000, lang_raw = Some m\<rparr>,
      \<lparr>author = c, tweet = 1600000000000000000, note_ts = 1673784000000000000, lang_raw = Some n\<rparr>]"
  "dropna ex_pandas [ex_late] =
     [\<lparr>author = ''f'', tweet = 1600000000000000000, note_ts = 1675209600000000000, lang_raw = Some ''en''\<rparr>]"
  "dropna ex_pandas [ex_no_seconds] =
     [\<lparr>author = ''g'', tweet = 1600000000000000000, note_ts = 1673784000000000000, lang_raw = Some ''en''\<rparr>]"
  "dropna ex_pandas [ex_note a l, ex_no_seconds] =
     [\<lparr>author = a, tweet = 1600000000000000000, note_ts = 1673784000000000000, lang_raw = Some l\<rparr>]"
  "dropna ex_pandas [ex_note a l, ex_no_author] =
     [\<lparr>author = a, tweet = 1600000000000000000, note_ts = 1673784000000000000, lang_raw = Some l\<rparr>]"
  "dropna ex_pandas [ex_note a l, ex_future, ex_no_author] =
     [\<lparr>author = a, tweet = 1600000000000000000, note_ts = 1673784000000000000, lang_raw = Some l\<rparr>,
      \<lparr>author = ''e'', tweet = 1700000000000000000, note_ts = 1675209600000000000, lang_raw = None\<rparr>]"
  unfolding dropna_def ex_assign
  by (simp_all add: map_filter_simps keep_def ex_note_def ex_late_def
        ex_no_seconds_def ex_no_author_def ex_future_def)


lemma ex_words:
  "sint (1673784000000000000 :: 64 word) div 1000000 = 1673784000000"
  "sint (1675209600000000000 :: 64 word) div 1000000 = 1675209600000"
  "sint (1600000000000000000 :: 64 word) = 1600000000000000000"
  "sint (1700000000000000000 :: 64 word) = 1700000000000000000"
  by code_simp+

lemma ex_calendar:
  "ex_to_period_M 1673784000000 = 202301"
  "ex_to_period_M 1675209600000 = 202302"
  "ex_month_start 202301 = 1672531200000"
  "ex_month_start 202302 = 1675209600000"
  by code_simp+

lemma ex_deltas:
  "delta_hours 1600000000000000000 1673784000000 = 3479298781 / 3600000"
  "delta_hours 1600000000000000000 1675209600000 = 4904898781 / 3600000"
  "delta_hours 1700000000000000000 1675209600000 = - (18936959129 / 3600000)"
  by code_simp+

lemmas ex_eval = ex_pandas_sel ex_dropna ex_words ex_calendar ex_deltas
  note_ms_def month_of_def tweet_key_def lang_of_def
  value_counts_def add_counts_def groupby_authors_def update_sets_def
  min_per_tweet_def merge_min_def merge_step_def

subsection \<open>Shifts of 64-bit words\<close>

lemma drop_bit_push_bit_word64:
  fixes d :: int
  assumes "0 \<le> d" and "d * 2 ^ 22 < 2 ^ 64"
  shows "drop_bit 22 (word_of_int (d * 2 ^ 22) :: 64 word) = word_of_int d"
proof -
  define w :: "64 word" where "w = word_of_int (d * 2 ^ 22)"
  have t: "take_bit 64 (d * 2 ^ 22) = d * 2 ^ 22"
    using assms by (intro take_bit_int_eq_self) simp_all
  have uw: "uint w = d * 2 ^ 22"
    unfolding w_def uint_word_of_int_eq using t by simp
  have "uint (drop_bit 22 w) = uint w div 2 ^ 22"
    by (simp add: drop_bit_eq_div uint_div_distrib)
  then have "uint (drop_bit 22 w) = d"
    by (simp add: uw)
  then show ?thesis
    unfolding w_def by (metis word_of_int_uint)
qed

subsection \<open>Dropped rows\<close>








subsection \<open>The per-subject minimum\<close>

lemma merge_min_le:
  assumes "map_of d t = Some v"
  shows "\<exists>v'. map_of (merge_min (min_per_tweet chunk) d) t = Some v' \<and> v' \<le> v"
  using assms
  by (simp add: map_of_merge_min [OF distinct_min_per_tweet] split: option.splits)

lemma earliest_run_chunks_set:
  "map_of (earliest_note_ms_by_tweet (run_chunks P cs)) =
     (\<lambda>t. if t \<in> tweet_key ` set (kept_notes P cs)
          then Some (Min (note_ms ` {n \<in> set (kept_notes P cs). tweet_key n = t})) else None)"
  using agg_of_run_chunks [of P cs] unfolding agg_of_def by blast

lemma earliest_run_chunks_list:
  "map_of (earliest_note_ms_by_tweet (run_chunks P cs)) tid =
     (let ms = map note_ms (filter (\<lambda>n. tweet_key n = tid) (kept_notes P cs))
      in if ms = [] then None else Some (min_list ms))"
proof -
  let ?ms = "map note_ms (filter (\<lambda>n. tweet_key n = tid) (kept_notes P cs))"
  have s: "set ?ms = note_ms ` {n \<in> set (kept_notes P cs). tweet_key n = tid}"
    by auto
  have e: "?ms = [] \<longleftrightarrow> tid \<notin> tweet_key ` set (kept_notes P cs)"
    by (auto simp: filter_empty_conv)
  show ?thesis
  proof (cases "?ms = []")
    case True
    then show ?thesis
      using e by (simp add: earliest_run_chunks_set Let_def)
  next
    case False
    then show ?thesis
      using e min_list_Min [OF False] s by (simp add: earliest_run_chunks_set Let_def)
  qed
qed

lemma earliest_run_chunks_perm:
  assumes "mset cs' = mset cs"
  shows "map_of (earliest_note_ms_by_tweet (run_chunks P cs')) =
         map_of (earliest_note_ms_by_tweet (run_chunks P cs))"
proof -
  have "set cs' = set cs"
    using assms by (rule mset_eq_setD)
  then have "set (kept_notes P cs') = set (kept_notes P cs)"
    by (simp add: kept_notes_def)
  then show ?thesis
    unfolding earliest_run_chunks_set by (simp only:)
qed

subsection \<open>The examples, evaluated\<close>

lemma ex_tweet_ids:
  "(\<exists>r \<in> set ex_notes. tweetId r = None) = False"
  "(\<exists>r \<in> set ex_formats. tweetId r = None) = False"
  "(\<exists>r \<in> set ex_two. tweetId r = None) = False"
  "(\<exists>r \<in> set ex_mixed. tweetId r = None) = False"
  "(tweetId (ex_note a l) = None) = False"
  by (simp_all add: ex_notes_def ex_formats_def ex_two_def ex_mixed_def ex_note_def
        ex_no_seconds_def ex_no_author_def ex_future_def)







lemma ex_mixed_state:
  "month_note_counts (run_chunks ex_pandas (read_csv 200000 ex_mixed)) = [(202301, 1), (202302, 1)]"
  "card (month_authors (run_chunks ex_pandas (read_csv 200000 ex_mixed)) 202301) = 1"
  "card (month_authors (run_chunks ex_pandas (read_csv 200000 ex_mixed)) 202302) = 1"
  "earliest_note_ms_by_tweet (run_chunks ex_pandas (read_csv 200000 ex_mixed)) =
     [(1600000000000000000, 1673784000000), (1700000000000000000, 1675209600000)]"
  by (simp_all only: ex_read_mixed run_chunks_def fold_simps id_apply comp_apply
        process_chunk_fields)
     (simp_all add: init_agg_def ex_eval)

lemma ex_mixed_medians:
  "first_median ex_pandas
     [(1600000000000000000, 1673784000000), (1700000000000000000, 1675209600000)] 202301 =
   Some (3479298781 / 3600000)"
  "first_median ex_pandas
     [(1600000000000000000, 1673784000000), (1700000000000000000, 1675209600000)] 202302 = None"
  by (simp_all add: first_median_def df_first_def median_def ex_eval)

lemma ex_mixed_monthly:
  "monthly_table ex_pandas (run_chunks ex_pandas (read_csv 200000 ex_mixed)) = [ex_row_jan, ex_row_feb]"
  by (simp add: monthly_table_def Let_def dict_get0_def ex_mixed_state ex_mixed_medians
        ex_pandas_sel ex_calendar ex_row_jan_def ex_row_feb_def)

lemma ex_mixed_totals_state:
  "total_rows (run_chunks ex_pandas (read_csv 200000 ex_mixed)) = 3"
  "dropped_rows (run_chunks ex_pandas (read_csv 200000 ex_mixed)) = 1"
  "card (all_authors (run_chunks ex_pandas (read_csv 200000 ex_mixed))) = 2"
  "lang_note_counts (run_chunks ex_pandas (read_csv 200000 ex_mixed)) = [(''en'', 1), (''unk'', 1)]"
  "card (lang_authors (run_chunks ex_pandas (read_csv 200000 ex_mixed)) ''en'') = 1"
  "card (lang_authors (run_chunks ex_pandas (read_csv 200000 ex_mixed)) ''unk'') = 1"
  by (simp_all only: ex_read_mixed run_chunks_def fold_simps id_apply comp_apply
        process_chunk_fields)
     (simp_all add: init_agg_def ex_eval)

lemma ex_mixed_result:
  "compute_monthly_metrics ex_pandas ex_mixed 200000 =
     Inr ([ex_row_jan, ex_row_feb], ex_mixed_totals, ex_mixed_lang)"
  by (simp add: compute_monthly_metrics_def Let_def ex_tweet_ids ex_mixed_monthly totals_of_def
        lang_table_def lang_rows_def ex_mixed_totals_state ex_mixed_state
        ex_mixed_totals_def ex_mixed_lang_def)

lemma ex_no_authors_monthly:
  "monthly_table ex_pandas ex_no_authors = [ex_row_no_authors]"
  by (simp add: monthly_table_def Let_def dict_get0_def ex_no_authors_def init_agg_def
        first_median_def df_first_def median_def ex_pandas_sel ex_calendar ex_row_no_authors_def)

subsection \<open>Rows of the monthly table\<close>

lemma median_None_iff: "median xs = None \<longleftrightarrow> xs = []"
proof (cases "xs = []")
  case True
  then show ?thesis by (simp add: median_def)
next
  case False
  then have n: "length (sort xs) \<noteq> 0" by simp
  have "median xs \<noteq> None"
    unfolding median_def Let_def using n by (simp only: if_False split: if_split) blast
  then show ?thesis using False by simp
qed

lemma df_first_filter:
  "df_first P d =
     map (\<lambda>(tid, ms). (to_period_M P ms, delta_hours tid ms))
       (filter (\<lambda>(tid, ms). 0 \<le> delta_hours tid ms) d)"
  by (simp add: df_first_def filter_map comp_def case_prod_unfold)

lemma first_median_filter:
  "first_median P d m =
     median (map (\<lambda>(tid, ms). delta_hours tid ms)
       (filter (\<lambda>(tid, ms). to_period_M P ms = m \<and> 0 \<le> delta_hours tid ms) d))"
proof -
  have "(\<lambda>x. 0 \<le> delta_hours (fst x) (snd x) \<and> to_period_M P (snd x) = m) =
        (\<lambda>x. to_period_M P (snd x) = m \<and> 0 \<le> delta_hours (fst x) (snd x))"
    by auto
  then show ?thesis
    by (simp add: first_median_def df_first_filter filter_map comp_def case_prod_unfold)
qed

lemma monthly_table_rows:
  assumes "row \<in> set (monthly_table P s)"
  shows "Notes_per_Author row =
      (if Active_Authors row = 0 then None
       else Some (of_nat (Notes row) / of_nat (Active_Authors row)))"
    and "Median_TimeToFirstNote_hours row = first_median P (earliest_note_ms_by_tweet s) (Month row)"
  using assms by (auto simp: monthly_table_def Let_def)

lemma compute_monthly_metrics_Inr:
  assumes "compute_monthly_metrics P rows k = Inr (monthly, t, l)"
  shows "1 \<le> k"
    and "monthly = monthly_table P (run_chunks P (read_csv (nat k) rows))"
    and "t = totals_of (run_chunks P (read_csv (nat k) rows))"
    and "l = lang_table (run_chunks P (read_csv (nat k) rows))"
  using assms by (auto simp: compute_monthly_metrics_def Let_def split: if_splits)

section \<open>Theorems\<close>

subsection \<open>Snowflake round trip\<close>

text \<open>
  C3. For every creation time \<open>creation_ms\<close> such that
  \<open>(creation_ms - TWITTER_EPOCH_MS) << 22\<close> is an unsigned 64-bit identifier (the
  difference is not negative and the shifted value is below \<open>2 ^ 64\<close>), decoding that
  identifier gives back \<open>creation_ms\<close> exactly. The shift is the logical shift of the
  unsigned reading, so an identifier with its top bit set decodes to the same value too.
\<close>

theorem tweet_id_roundtrip:
  assumes "0 \<le> creation_ms - TWITTER_EPOCH_MS"
    and "(creation_ms - TWITTER_EPOCH_MS) * 2 ^ 22 < 2 ^ 64"
  shows "sint (tweet_id_to_timestamp_ms
           (word_of_int ((creation_ms - TWITTER_EPOCH_MS) * 2 ^ 22))) = creation_ms"
proof -
  define d where "d = creation_ms - TWITTER_EPOCH_MS"
  have d0: "0 \<le> d" and d1: "d * 2 ^ 22 < 2 ^ 64"
    using assms by (simp_all add: d_def)
  have d2: "d < 2 ^ 42"
    using d1 by simp
  have w: "(drop_bit 22 (word_of_int (d * 2 ^ 22) :: 64 word)) = word_of_int d"
    by (rule drop_bit_push_bit_word64 [OF d0 d1])
  have "tweet_id_to_timestamp_ms (word_of_int (d * 2 ^ 22)) = word_of_int (d + TWITTER_EPOCH_MS)"
    unfolding tweet_id_to_timestamp_ms_def w by simp
  moreover have "sint (word_of_int (d + TWITTER_EPOCH_MS) :: 64 word) = d + TWITTER_EPOCH_MS"
    unfolding sint_sbintrunc' using d0 d2
    by (intro signed_take_bit_int_eq_self) (simp_all add: TWITTER_EPOCH_MS_def)
  ultimately show ?thesis
    by (simp add: d_def)
qed

theorem tweet_id_roundtrip_witness:
  "(0::int) \<le> 1667260800000 - TWITTER_EPOCH_MS
   \<and> (1667260800000 - TWITTER_EPOCH_MS) * 2 ^ 22 < (2 ^ 64 :: int)
   \<and> sint (tweet_id_to_timestamp_ms
        (word_of_int ((1667260800000 - TWITTER_EPOCH_MS) * 2 ^ 22))) = 1667260800000"
proof -
  have h1: "(0::int) \<le> 1667260800000 - TWITTER_EPOCH_MS"
    by (simp add: TWITTER_EPOCH_MS_def)
  have h2: "(1667260800000 - TWITTER_EPOCH_MS) * 2 ^ 22 < (2 ^ 64 :: int)"
    by (simp add: TWITTER_EPOCH_MS_def)
  show ?thesis
    using h1 h2 tweet_id_roundtrip [OF h1 h2] by simp
qed

subsection \<open>Chunk size\<close>




subsection \<open>Dropped rows\<close>




subsection \<open>The earliest note of a subject\<close>

text \<open>
  C4. For every subject \<open>tid\<close>: (1) one pass of the loop never raises the recorded
  earliest time: a value \<open>v\<close> recorded before the chunk is followed by a recorded value
  \<open>v'\<close> with \<open>v' \<le> v\<close> (the entry is only overwritten under \<^verbatim>\<open>ms_int < prev\<close>, so it stays
  or becomes strictly earlier, and it is never removed); (2) after all chunks the recorded
  value is the minimum of the note times of all retained rows of that subject (the rows
  that \<^verbatim>\<open>dropna\<close> leaves in the chunks), and it is absent exactly when no retained row has
  that subject; (3) it is the same for every
  order of the same chunks.
\<close>

theorem earliest_min_merge:
  "(\<forall>v. map_of (earliest_note_ms_by_tweet s) tid = Some v \<longrightarrow>
      (\<exists>v'. map_of (earliest_note_ms_by_tweet (process_chunk P chunk s)) tid = Some v' \<and> v' \<le> v))
   \<and> map_of (earliest_note_ms_by_tweet (run_chunks P cs)) tid =
       (let ms = map note_ms (filter (\<lambda>n. tweet_key n = tid) (kept_notes P cs))
        in if ms = [] then None else Some (min_list ms))
   \<and> (mset cs' = mset cs \<longrightarrow>
        map_of (earliest_note_ms_by_tweet (run_chunks P cs')) tid =
        map_of (earliest_note_ms_by_tweet (run_chunks P cs)) tid)"
  using merge_min_le [of "earliest_note_ms_by_tweet s" tid _ "dropna P chunk"]
    earliest_run_chunks_list [of P cs tid] earliest_run_chunks_perm [of cs' cs P]
  by (simp add: process_chunk_earliest)

theorem earliest_min_merge_witness:
  "map_of (earliest_note_ms_by_tweet (process_chunk ex_pandas [ex_late] init_agg))
     1600000000000000000 = Some 1675209600000
   \<and> (\<exists>v'. map_of (earliest_note_ms_by_tweet
          (process_chunk ex_pandas [ex_note ''a'' ''en''] (process_chunk ex_pandas [ex_late] init_agg)))
        1600000000000000000 = Some v' \<and> v' \<le> 1675209600000)
   \<and> map_of (earliest_note_ms_by_tweet (run_chunks ex_pandas [[ex_late], [ex_note ''a'' ''en'']]))
        1600000000000000000 = Some 1673784000000
   \<and> mset [[ex_note ''a'' ''en''], [ex_late]] = mset [[ex_late], [ex_note ''a'' ''en'']]
   \<and> map_of (earliest_note_ms_by_tweet (run_chunks ex_pandas [[ex_note ''a'' ''en''], [ex_late]]))
        1600000000000000000 =
       map_of (earliest_note_ms_by_tweet (run_chunks ex_pandas [[ex_late], [ex_note ''a'' ''en'']]))
        1600000000000000000"
proof -
  note t = earliest_min_merge [of "process_chunk ex_pandas [ex_late] init_agg" 1600000000000000000
      ex_pandas "[ex_note ''a'' ''en'']" "[[ex_late], [ex_note ''a'' ''en'']]"
      "[[ex_note ''a'' ''en''], [ex_late]]"]
  have h1: "map_of (earliest_note_ms_by_tweet (process_chunk ex_pandas [ex_late] init_agg))
     1600000000000000000 = Some 1675209600000"
    by (simp add: process_chunk_earliest init_agg_def ex_eval)
  have h2: "mset [[ex_note ''a'' ''en''], [ex_late]] = mset [[ex_late], [ex_note ''a'' ''en'']]"
    by simp
  have c1: "\<exists>v'. map_of (earliest_note_ms_by_tweet
          (process_chunk ex_pandas [ex_note ''a'' ''en''] (process_chunk ex_pandas [ex_late] init_agg)))
        1600000000000000000 = Some v' \<and> v' \<le> 1675209600000"
    using t h1 by blast
  have "map_of (earliest_note_ms_by_tweet (run_chunks ex_pandas [[ex_late], [ex_note ''a'' ''en'']]))
        1600000000000000000 =
      (let ms = map note_ms (filter (\<lambda>n. tweet_key n = 1600000000000000000)
                  (kept_notes ex_pandas [[ex_late], [ex_note ''a'' ''en'']]))
        in if ms = [] then None else Some (min_list ms))"
    using t by blast
  then have c2: "map_of (earliest_note_ms_by_tweet (run_chunks ex_pandas [[ex_late], [ex_note ''a'' ''en'']]))
        1600000000000000000 = Some 1673784000000"
    by (simp add: kept_notes_def ex_eval)
  have c3: "map_of (earliest_note_ms_by_tweet (run_chunks ex_pandas [[ex_note ''a'' ''en''], [ex_late]]))
        1600000000000000000 =
       map_of (earliest_note_ms_by_tweet (run_chunks ex_pandas [[ex_late], [ex_note ''a'' ''en'']]))
        1600000000000000000"
    using t h2 by blast
  show ?thesis
    using h1 c1 c2 h2 c3 by blast
qed

subsection \<open>Notes per active author\<close>

text \<open>
  C5. In every row of the monthly table built from the accumulators, and so in every
  row of the table \<open>compute_monthly_metrics\<close> returns, \<open>Notes_per_Author\<close> is the
  missing value when \<open>Active_Authors\<close> is zero (it is neither zero nor an error), and
  it is \<open>Notes / Active_Authors\<close> otherwise.
\<close>

theorem notes_per_author_missing:
  "(\<forall>row \<in> set (monthly_table P s).
      Notes_per_Author row =
        (if Active_Authors row = 0 then None
         else Some (of_nat (Notes row) / of_nat (Active_Authors row))))
   \<and> (\<forall>monthly t l. compute_monthly_metrics P rows k = Inr (monthly, t, l) \<longrightarrow>
        (\<forall>row \<in> set monthly.
           Notes_per_Author row =
             (if Active_Authors row = 0 then None
              else Some (of_nat (Notes row) / of_nat (Active_Authors row)))))"
  using monthly_table_rows(1) compute_monthly_metrics_Inr(2) by blast

theorem notes_per_author_missing_witness:
  "ex_row_no_authors \<in> set (monthly_table ex_pandas ex_no_authors)
   \<and> Active_Authors ex_row_no_authors = 0
   \<and> Notes_per_Author ex_row_no_authors = None
   \<and> compute_monthly_metrics ex_pandas ex_mixed 200000 =
        Inr ([ex_row_jan, ex_row_feb], ex_mixed_totals, ex_mixed_lang)
   \<and> ex_row_jan \<in> set [ex_row_jan, ex_row_feb]
   \<and> Active_Authors ex_row_jan \<noteq> 0
   \<and> Notes_per_Author ex_row_jan =
        Some (of_nat (Notes ex_row_jan) / of_nat (Active_Authors ex_row_jan))"
proof -
  note t = notes_per_author_missing [of ex_pandas ex_no_authors ex_mixed 200000]
  have m0: "ex_row_no_authors \<in> set (monthly_table ex_pandas ex_no_authors)"
    by (simp add: ex_no_authors_monthly)
  have a0: "Active_Authors ex_row_no_authors = 0"
    by (simp add: ex_row_no_authors_def)
  have "Notes_per_Author ex_row_no_authors =
      (if Active_Authors ex_row_no_authors = 0 then None
       else Some (of_nat (Notes ex_row_no_authors) / of_nat (Active_Authors ex_row_no_authors)))"
    using t m0 by blast
  then have n0: "Notes_per_Author ex_row_no_authors = None"
    using a0 by simp
  have m1: "ex_row_jan \<in> set [ex_row_jan, ex_row_feb]"
    by simp
  have a1: "Active_Authors ex_row_jan \<noteq> 0"
    by (simp add: ex_row_jan_def)
  have "Notes_per_Author ex_row_jan =
      (if Active_Authors ex_row_jan = 0 then None
       else Some (of_nat (Notes ex_row_jan) / of_nat (Active_Authors ex_row_jan)))"
    using t ex_mixed_result m1 by blast
  then have n1: "Notes_per_Author ex_row_jan =
        Some (of_nat (Notes ex_row_jan) / of_nat (Active_Authors ex_row_jan))"
    using a1 by simp
  show ?thesis
    using m0 a0 n0 ex_mixed_result m1 a1 n1 by blast
qed

subsection \<open>Median time to the first note\<close>

text \<open>
  C6. In the finalization, the frame of deltas keeps exactly the subjects whose delta
  (earliest note time minus decoded creation time, in hours) is not negative, whatever
  its size, and drops the subjects with a negative delta. (The delta is a quotient of
  integers here and is never unparsable: decoding an identifier is a shift and cannot
  fail.) The median of a row of the monthly table is the median of the retained deltas
  whose earliest note falls in the row's month, and it is the missing value exactly when
  no retained subject falls in that month. The table \<open>compute_monthly_metrics\<close> returns
  is the monthly table of the accumulators after the last chunk.
\<close>

theorem first_note_median:
  "df_first P (earliest_note_ms_by_tweet s) =
     map (\<lambda>(tid, ms). (to_period_M P ms, delta_hours tid ms))
       (filter (\<lambda>(tid, ms). 0 \<le> delta_hours tid ms) (earliest_note_ms_by_tweet s))
   \<and> (\<forall>row \<in> set (monthly_table P s).
        Median_TimeToFirstNote_hours row =
          median (map (\<lambda>(tid, ms). delta_hours tid ms)
            (filter (\<lambda>(tid, ms). to_period_M P ms = Month row \<and> 0 \<le> delta_hours tid ms)
               (earliest_note_ms_by_tweet s)))
      \<and> (Median_TimeToFirstNote_hours row = None \<longleftrightarrow>
           \<not> (\<exists>(tid, ms) \<in> set (earliest_note_ms_by_tweet s).
                 to_period_M P ms = Month row \<and> 0 \<le> delta_hours tid ms)))
   \<and> (\<forall>monthly t l. compute_monthly_metrics P rows k = Inr (monthly, t, l) \<longrightarrow>
        monthly = monthly_table P (run_chunks P (read_csv (nat k) rows)))"
proof (intro conjI ballI allI impI)
  show "df_first P (earliest_note_ms_by_tweet s) =
     map (\<lambda>(tid, ms). (to_period_M P ms, delta_hours tid ms))
       (filter (\<lambda>(tid, ms). 0 \<le> delta_hours tid ms) (earliest_note_ms_by_tweet s))"
    by (rule df_first_filter)
next
  fix row assume r: "row \<in> set (monthly_table P s)"
  show m: "Median_TimeToFirstNote_hours row =
          median (map (\<lambda>(tid, ms). delta_hours tid ms)
            (filter (\<lambda>(tid, ms). to_period_M P ms = Month row \<and> 0 \<le> delta_hours tid ms)
               (earliest_note_ms_by_tweet s)))"
    by (simp only: monthly_table_rows(2) [OF r] first_median_filter)
  show "Median_TimeToFirstNote_hours row = None \<longleftrightarrow>
           \<not> (\<exists>(tid, ms) \<in> set (earliest_note_ms_by_tweet s).
                 to_period_M P ms = Month row \<and> 0 \<le> delta_hours tid ms)"
    unfolding m median_None_iff by (auto simp: filter_empty_conv)
next
  fix monthly t l
  assume "compute_monthly_metrics P rows k = Inr (monthly, t, l)"
  then show "monthly = monthly_table P (run_chunks P (read_csv (nat k) rows))"
    by (rule compute_monthly_metrics_Inr(2))
qed

theorem first_note_median_witness:
  "ex_row_jan \<in> set (monthly_table ex_pandas (run_chunks ex_pandas (read_csv 200000 ex_mixed)))
   \<and> ex_row_feb \<in> set (monthly_table ex_pandas (run_chunks ex_pandas (read_csv 200000 ex_mixed)))
   \<and> earliest_note_ms_by_tweet (run_chunks ex_pandas (read_csv 200000 ex_mixed)) =
        [(1600000000000000000, 1673784000000), (1700000000000000000, 1675209600000)]
   \<and> 0 \<le> delta_hours 1600000000000000000 1673784000000
   \<and> delta_hours 1700000000000000000 1675209600000 < 0
   \<and> df_first ex_pandas (earliest_note_ms_by_tweet (run_chunks ex_pandas (read_csv 200000 ex_mixed))) =
        [(202301, 3479298781 / 3600000)]
   \<and> Median_TimeToFirstNote_hours ex_row_jan = Some (3479298781 / 3600000)
   \<and> Median_TimeToFirstNote_hours ex_row_feb = None
   \<and> compute_monthly_metrics ex_pandas ex_mixed 200000 =
        Inr ([ex_row_jan, ex_row_feb], ex_mixed_totals, ex_mixed_lang)
   \<and> [ex_row_jan, ex_row_feb] =
        monthly_table ex_pandas (run_chunks ex_pandas (read_csv (nat 200000) ex_mixed))"
proof -
  let ?s = "run_chunks ex_pandas (read_csv 200000 ex_mixed)"
  note t = first_note_median [of ex_pandas ?s ex_mixed 200000]
  have m1: "ex_row_jan \<in> set (monthly_table ex_pandas ?s)"
    and m2: "ex_row_feb \<in> set (monthly_table ex_pandas ?s)"
    by (simp_all add: ex_mixed_monthly)
  note e = ex_mixed_state(4)
  have d1: "0 \<le> delta_hours 1600000000000000000 1673784000000"
    and d2: "delta_hours 1700000000000000000 1675209600000 < 0"
    by (simp_all add: ex_deltas)
  have "df_first ex_pandas (earliest_note_ms_by_tweet ?s) =
     map (\<lambda>(tid, ms). (to_period_M ex_pandas ms, delta_hours tid ms))
       (filter (\<lambda>(tid, ms). 0 \<le> delta_hours tid ms) (earliest_note_ms_by_tweet ?s))"
    using t by blast
  then have f: "df_first ex_pandas (earliest_note_ms_by_tweet ?s) = [(202301, 3479298781 / 3600000)]"
    by (simp add: e ex_eval)
  have "Median_TimeToFirstNote_hours ex_row_jan =
          median (map (\<lambda>(tid, ms). delta_hours tid ms)
            (filter (\<lambda>(tid, ms). to_period_M ex_pandas ms = Month ex_row_jan \<and> 0 \<le> delta_hours tid ms)
               (earliest_note_ms_by_tweet ?s)))"
    using t m1 by blast
  then have j: "Median_TimeToFirstNote_hours ex_row_jan = Some (3479298781 / 3600000)"
    by (simp add: e ex_eval ex_row_jan_def median_def)
  have "Median_TimeToFirstNote_hours ex_row_feb = None \<longleftrightarrow>
           \<not> (\<exists>(tid, ms) \<in> set (earliest_note_ms_by_tweet ?s).
                 to_period_M ex_pandas ms = Month ex_row_feb \<and> 0 \<le> delta_hours tid ms)"
    using t m2 by blast
  then have fb: "Median_TimeToFirstNote_hours ex_row_feb = None"
    by (simp add: e ex_eval ex_row_feb_def)
  have c: "[ex_row_jan, ex_row_feb] =
        monthly_table ex_pandas (run_chunks ex_pandas (read_csv (nat 200000) ex_mixed))"
    using t ex_mixed_result by blast
  show ?thesis
    using m1 m2 e d1 d2 f j fb ex_mixed_result c by blast
qed

end
